theory Spec2Isabelle
  imports Complex_Main "HOL-Library.Log_Nat" "HOL-Library.Sublist"
begin

section \<open>pyLBM geometry: the box, its labels and its decomposition\<close>

text \<open>
  A shallow embedding of \<^verbatim>\<open>pyLBM/geometry.py\<close>: the function \<^verbatim>\<open>get_box\<close> and the
  class \<^verbatim>\<open>Geometry\<close> with its constructor, \<^verbatim>\<open>add_elem\<close> and \<^verbatim>\<open>list_of_labels\<close>.
  Exceptions are values of a sum type, the messages given to \<^verbatim>\<open>log.error\<close> are
  returned as a list beside the result, the two loops of the constructor are recursive
  functions over \<^verbatim>\<open>xrange(dim)\<close>, and numpy's \<^verbatim>\<open>f8\<close> arrays are lists of rows of
  binary64 values.
\<close>

subsection \<open>Exceptions and logged errors\<close>

datatype py_error =
    KeyError | UnboundLocalError | AttributeError | IndexError | ValueError
  | OverflowError | MPIError

definition bind_err :: "'e + 'a \<Rightarrow> ('a \<Rightarrow> 'e + 'b) \<Rightarrow> 'e + 'b" where
  "bind_err m f = (case m of Inl e \<Rightarrow> Inl e | Inr v \<Rightarrow> f v)"

text \<open>
  Modelled from the spec: the logger of module \<^verbatim>\<open>logs\<close> (\<^verbatim>\<open>setLogger\<close>), "a shared
  diagnostic logger". \<^verbatim>\<open>log.error(msg)\<close> records the message and returns; the
  messages of \<^verbatim>\<open>geometry.py\<close> are:
  \<^item> \<open>X_interval_not_found\<close>: "'x' interval not found in the box definition of the geometry."
  \<^item> \<open>Box_key_not_found\<close>: "'box' key not found in the geometry definition. Check the input dictionnary."
  \<^item> \<open>Label_wrong_size\<close>: "The list label of the box has the wrong size (must be 2*dim)"
  \<^item> \<open>Label_wrong_type\<close>: "The labels of the box must be an integer or a list"
\<close>

datatype log_msg =
  X_interval_not_found | Box_key_not_found | Label_wrong_size | Label_wrong_type

subsection \<open>Binary64 values (numpy dtype f8)\<close>

text \<open>
  A binary64 value is a sign and a magnitude, an infinity with its sign, or a NaN.
  \<open>Finite True 0\<close> is the negative zero. Every operation computes the exact rational
  result and rounds its magnitude to the nearest value with 53 significant bits (ties to
  even), with the gradual underflow below \<open>2^-1022\<close> and the overflow to an infinity from
  \<open>2^1024\<close> on.
\<close>

datatype f8 = Finite bool rat | Infinity bool | NaN

definition ilog2 :: "rat \<Rightarrow> int" where
  \<comment> \<open>the integer part of the binary logarithm of a positive rational\<close>
  "ilog2 x = (if 1 \<le> x then bitlen \<lfloor>x\<rfloor> - 1 else - bitlen (\<lceil>1 / x\<rceil> - 1))"

definition round_half_even :: "rat \<Rightarrow> int" where
  "round_half_even r =
     (let f = \<lfloor>r\<rfloor>; d = r - of_int f
      in if d < 1 / 2 then f else if 1 / 2 < d then f + 1
         else if even f then f else f + 1)"

definition f8_round :: "bool \<Rightarrow> rat \<Rightarrow> f8" where
  \<comment> \<open>the binary64 value nearest to the exact magnitude \<open>m \<ge> 0\<close> with sign \<open>s\<close>\<close>
  "f8_round s m =
     (if m = 0 then Finite s 0
      else (let e = max (ilog2 m) (- 1022);
                u = 2 powi (e - 52);
                r = of_int (round_half_even (m / u)) * u
            in if 2 ^ 1024 \<le> r then Infinity s else Finite s r))"

definition signed :: "bool \<Rightarrow> rat \<Rightarrow> rat" where
  "signed s m = (if s then - m else m)"

fun f8_neg :: "f8 \<Rightarrow> f8" where
  "f8_neg (Finite s m) = Finite (\<not> s) m"
| "f8_neg (Infinity s) = Infinity (\<not> s)"
| "f8_neg NaN = NaN"

fun f8_add :: "f8 \<Rightarrow> f8 \<Rightarrow> f8" where
  "f8_add (Finite s m) (Finite s' m') =
     (let x = signed s m + signed s' m'
      in if x = 0 then Finite (s \<and> s') 0 else f8_round (x < 0) \<bar>x\<bar>)"
| "f8_add (Finite s m) (Infinity s') = Infinity s'"
| "f8_add (Infinity s) (Finite s' m') = Infinity s"
| "f8_add (Infinity s) (Infinity s') = (if s = s' then Infinity s else NaN)"
| "f8_add NaN b = NaN"
| "f8_add a NaN = NaN"

definition f8_sub :: "f8 \<Rightarrow> f8 \<Rightarrow> f8" where
  "f8_sub a b = f8_add a (f8_neg b)"

fun f8_mul :: "f8 \<Rightarrow> f8 \<Rightarrow> f8" where
  "f8_mul (Finite s m) (Finite s' m') = f8_round (s \<noteq> s') (m * m')"
| "f8_mul (Finite s m) (Infinity s') = (if m = 0 then NaN else Infinity (s \<noteq> s'))"
| "f8_mul (Infinity s) (Finite s' m') = (if m' = 0 then NaN else Infinity (s \<noteq> s'))"
| "f8_mul (Infinity s) (Infinity s') = Infinity (s \<noteq> s')"
| "f8_mul NaN b = NaN"
| "f8_mul a NaN = NaN"

fun f8_div :: "f8 \<Rightarrow> f8 \<Rightarrow> f8" where
  "f8_div (Finite s m) (Finite s' m') =
     (if m' = 0 then (if m = 0 then NaN else Infinity (s \<noteq> s'))
      else f8_round (s \<noteq> s') (m / m'))"
| "f8_div (Finite s m) (Infinity s') = Finite (s \<noteq> s') 0"
| "f8_div (Infinity s) (Finite s' m') = Infinity (s \<noteq> s')"
| "f8_div (Infinity s) (Infinity s') = NaN"
| "f8_div NaN b = NaN"
| "f8_div a NaN = NaN"

definition f8_of_int :: "int \<Rightarrow> f8" where
  \<comment> \<open>the conversion of an integer array entry in mixed arithmetic\<close>
  "f8_of_int c = f8_round (c < 0) \<bar>of_int c\<bar>"

definition is_f8 :: "f8 \<Rightarrow> bool" where
  \<comment> \<open>a finite value is one that binary64 has when rounding leaves it as it is\<close>
  "is_f8 v = (case v of Finite s m \<Rightarrow> 0 \<le> m \<and> f8_round s m = Finite s m | _ \<Rightarrow> True)"

subsection \<open>numpy arrays\<close>

datatype py_num = PyInt int | PyFloat f8

definition as_f8 :: "py_num \<Rightarrow> py_error + f8" where
  "as_f8 v = (case v of
       PyFloat a \<Rightarrow> Inr a
     | PyInt n \<Rightarrow> (case f8_of_int n of Infinity s \<Rightarrow> Inl OverflowError | a \<Rightarrow> Inr a))"

fun map_err :: "('a \<Rightarrow> 'e + 'b) \<Rightarrow> 'a list \<Rightarrow> 'e + 'b list" where
  "map_err f [] = Inr []"
| "map_err f (x # xs) = bind_err (f x) (\<lambda>y. bind_err (map_err f xs) (\<lambda>ys. Inr (y # ys)))"

definition np_asarray_f8 :: "py_num list list \<Rightarrow> py_error + f8 list list" where
  \<comment> \<open>\<^verbatim>\<open>np.asarray(rows, dtype='f8')\<close>: rows of unequal lengths are refused\<close>
  "np_asarray_f8 rows =
     (if list_all (\<lambda>r. length r = length (hd rows)) rows
      then map_err (map_err as_f8) rows else Inl ValueError)"

definition column :: "'a list list \<Rightarrow> nat \<Rightarrow> py_error + 'a list" where
  \<comment> \<open>\<^verbatim>\<open>a[:, k]\<close>\<close>
  "column a k =
     (if list_all (\<lambda>r. k < length r) a then Inr (map (\<lambda>r. r ! k) a) else Inl IndexError)"

definition set_column :: "'a list list \<Rightarrow> nat \<Rightarrow> 'a list \<Rightarrow> py_error + 'a list list" where
  \<comment> \<open>\<^verbatim>\<open>a[:, k] = v\<close>, with a one-entry \<open>v\<close> broadcast to every row\<close>
  "set_column a k v =
     (if \<not> list_all (\<lambda>r. k < length r) a then Inl IndexError
      else if length v = length a then Inr (map2 (\<lambda>r x. r[k := x]) a v)
      else if length v = 1 then Inr (map (\<lambda>r. r[k := hd v]) a)
      else Inl ValueError)"

definition broadcast2 :: "('a \<Rightarrow> 'b \<Rightarrow> 'c) \<Rightarrow> 'a list \<Rightarrow> 'b list \<Rightarrow> py_error + 'c list" where
  \<comment> \<open>an elementwise operation on two one-dimensional arrays\<close>
  "broadcast2 f xs ys =
     (if length xs = length ys then Inr (map2 f xs ys)
      else if length xs = 1 then Inr (map (f (hd xs)) ys)
      else if length ys = 1 then Inr (map (\<lambda>x. f x (hd ys)) xs)
      else Inl ValueError)"

definition int64 :: "int \<Rightarrow> int" where
  \<comment> \<open>the value that integer arithmetic leaves in an array of dtype int64: two's
      complement on 64 bits\<close>
  "int64 n = (n + 2 ^ 63) mod 2 ^ 64 - 2 ^ 63"

definition np_unique :: "int list \<Rightarrow> int list" where
  \<comment> \<open>\<^verbatim>\<open>np.unique\<close>: the sorted unique entries\<close>
  "np_unique xs = sort (remdups xs)"

definition np_union1d :: "int list \<Rightarrow> int list \<Rightarrow> int list" where
  \<comment> \<open>\<^verbatim>\<open>np.union1d(a, b)\<close> is \<^verbatim>\<open>unique(concatenate((a, b)))\<close>\<close>
  "np_union1d a b = np_unique (a @ b)"

subsection \<open>Elements, the process topology and the input dictionary\<close>

text \<open>
  Modelled from the spec: the geometric elements of module \<^verbatim>\<open>elements\<close> (Circle,
  Parallelogram, Triangle, Sphere). "Each element exposes a fluid/solid flag, one or more
  integer labels"; the shape itself is kept as its description.
\<close>

record element =
  isfluid :: bool
  label :: "int list"
  shape :: string

text \<open>
  Modelled from the spec: class \<^verbatim>\<open>Interface\<close> of module \<^verbatim>\<open>interface\<close>, the process
  topology. Built from the dimension and the periodicity vector, it gives the split
  factors (\<^verbatim>\<open>split\<close>), the coordinates of this process (\<^verbatim>\<open>get_coords()\<close>), and for
  an axis the ranks of the two neighbours (\<^verbatim>\<open>cartcomm.Shift(i, 1)\<close>), the rank being
  \<^verbatim>\<open>mpi.PROC_NULL\<close> where there is none. The split factors and the coordinates are
  numpy arrays of dtype int64.
\<close>

datatype rank = PROC_NULL | Rank nat

record interface =
  split :: "int list"
  get_coords :: "int list"
  Shift :: "nat \<Rightarrow> rank \<times> rank"

datatype label_value =
    LabelInt int
  | LabelList "int list"
  | LabelOther  \<comment> \<open>any other value: None, a string, a tuple\<close>

record box_dict =
  key_x :: "py_num list option"
  key_y :: "py_num list option"
  key_z :: "py_num list option"
  key_label :: "label_value option"

record dico =
  key_box :: "box_dict option"
  key_elements :: "element list option"

subsection \<open>get_box\<close>

definition get_box :: "dico \<Rightarrow> log_msg list \<times> (py_error + nat \<times> f8 list list)" where
  \<comment> \<open>after a caught KeyError the function logs and goes on to its \<^verbatim>\<open>return dim, ...\<close>,
      where \<^verbatim>\<open>dim\<close> has no value\<close>
  "get_box d =
     (case key_box d of
        None \<Rightarrow> ([Box_key_not_found], Inl UnboundLocalError)
      | Some box \<Rightarrow>
          (case key_x box of
             None \<Rightarrow> ([X_interval_not_found], Inl UnboundLocalError)
           | Some bx \<Rightarrow>
               (let (dim, bounds) =
                      (case key_y box of
                         None \<Rightarrow> (1, [bx])
                       | Some boxy \<Rightarrow>
                           (case key_z box of
                              None \<Rightarrow> (2, [bx, boxy])
                            | Some boxz \<Rightarrow> (3, [bx, boxy, boxz])))
                in ([], bind_err (np_asarray_f8 bounds) (\<lambda>a. Inr (dim, a))))))"

subsection \<open>The class Geometry\<close>

record geometry =
  dim :: nat
  globalbounds :: "f8 list list"
  bounds :: "f8 list list"
  box_label :: "int list"
  list_elem :: "element list"
  interface :: interface

definition init_box_label :: "nat \<Rightarrow> label_value \<Rightarrow> log_msg list \<times> int list option" where
  \<comment> \<open>lines 118 to 125; \<open>None\<close>: the attribute \<^verbatim>\<open>box_label\<close> is not set\<close>
  "init_box_label n dummylab =
     (case dummylab of
        LabelInt l \<Rightarrow> ([], Some (replicate (2 * n) l))
      | LabelList ls \<Rightarrow> (if length ls \<noteq> 2 * n then [Label_wrong_size] else [], Some ls)
      | LabelOther \<Rightarrow> ([Label_wrong_type], None))"

definition get_item :: "'a list \<Rightarrow> nat \<Rightarrow> py_error + 'a" where
  "get_item xs k = (if k < length xs then Inr (xs ! k) else Inl IndexError)"

definition set_item :: "'a list \<Rightarrow> nat \<Rightarrow> 'a \<Rightarrow> py_error + 'a list" where
  "set_item xs k v = (if k < length xs then Inr (xs[k := v]) else Inl IndexError)"

fun period_loop :: "int list \<Rightarrow> nat list \<Rightarrow> bool list \<Rightarrow> py_error + bool list" where
  "period_loop ls [] period = Inr period"
| "period_loop ls (i # is) period =
     bind_err (get_item ls (2 * i)) (\<lambda>a.
     bind_err (get_item ls (2 * i + 1)) (\<lambda>b.
       period_loop ls is (if a = b \<and> b = - 1 then period[i := True] else period)))"

definition compute_period :: "nat \<Rightarrow> int list \<Rightarrow> py_error + bool list" where
  \<comment> \<open>lines 127 to 130\<close>
  "compute_period n ls = period_loop ls [0..<n] (replicate n False)"

definition local_bounds :: "f8 list list \<Rightarrow> int list \<Rightarrow> int list \<Rightarrow> py_error + f8 list list" where
  \<comment> \<open>lines 137 to 140, on \<^verbatim>\<open>self.bounds\<close>, the copy of \<^verbatim>\<open>globalbounds\<close> (line 134
      converts an array that is of dtype f8 already); \<^verbatim>\<open>coords + 1\<close> is an addition of
      int64 values, which wraps\<close>
  "local_bounds bounds0 splt coords =
     bind_err (column bounds0 1) (\<lambda>b1.
     bind_err (column bounds0 0) (\<lambda>b0.
     bind_err (broadcast2 f8_sub b1 b0) (\<lambda>d.
     bind_err (broadcast2 (\<lambda>a s. f8_div a (f8_of_int s)) d splt) (\<lambda>t.
     bind_err (column bounds0 0) (\<lambda>lo.
     bind_err (broadcast2 (\<lambda>a c. f8_mul a (f8_of_int c)) t (map (\<lambda>c. int64 (c + 1)) coords)) (\<lambda>h.
     bind_err (broadcast2 f8_add lo h) (\<lambda>high.
     bind_err (set_column bounds0 1 high) (\<lambda>bounds1.
     bind_err (column bounds1 0) (\<lambda>lo'.
     bind_err (broadcast2 (\<lambda>a c. f8_mul a (f8_of_int c)) t coords) (\<lambda>l.
     bind_err (broadcast2 f8_add lo' l) (\<lambda>low.
       set_column bounds1 0 low)))))))))))"

definition override_step :: "(nat \<Rightarrow> rank \<times> rank) \<Rightarrow> int list \<Rightarrow> nat \<Rightarrow> py_error + int list" where
  \<comment> \<open>the body of the loop of lines 143 to 148\<close>
  "override_step sh ls i =
     (let voisins = sh i
      in bind_err (if fst voisins \<noteq> PROC_NULL then set_item ls (2 * i) (- 2) else Inr ls) (\<lambda>ls1.
           if snd voisins \<noteq> PROC_NULL then set_item ls1 (2 * i + 1) (- 2) else Inr ls1))"

fun override_loop :: "(nat \<Rightarrow> rank \<times> rank) \<Rightarrow> nat list \<Rightarrow> int list \<Rightarrow> py_error + int list" where
  "override_loop sh [] ls = Inr ls"
| "override_loop sh (i # is) ls = bind_err (override_step sh ls i) (override_loop sh is)"

definition override_interfaces :: "nat \<Rightarrow> (nat \<Rightarrow> rank \<times> rank) \<Rightarrow> int list \<Rightarrow> py_error + int list" where
  "override_interfaces n sh ls = override_loop sh [0..<n] ls"

definition box_label0 :: "nat \<Rightarrow> box_dict \<Rightarrow> log_msg list \<times> int list option" where
  \<comment> \<open>line 117 and the branches after it: the labels before the loop of line 143\<close>
  "box_label0 n box =
     init_box_label n (case key_label box of None \<Rightarrow> LabelInt (- 1) | Some v \<Rightarrow> v)"

definition Geometry_init ::
  "(nat \<Rightarrow> bool list \<Rightarrow> py_error + interface) \<Rightarrow> dico \<Rightarrow> log_msg list \<times> (py_error + geometry)" where
  \<comment> \<open>\<^verbatim>\<open>Geometry.__init__\<close>; \<open>Interface\<close> is the constructor of the topology. Without the
      attribute \<^verbatim>\<open>box_label\<close> the first pass of the loop of line 128 raises
      AttributeError (\<^verbatim>\<open>dim\<close> is at least 1). A list of labels is the list object of
      the dictionary itself; the dictionary is not read again after the loop of line 143
      has written into it. The calls of \<^verbatim>\<open>log.debug\<close> are left out.\<close>
  "Geometry_init Interface d =
     (case get_box d of
        (log1, Inl e) \<Rightarrow> (log1, Inl e)
      | (log1, Inr (n, gb)) \<Rightarrow>
          (case key_box d of
             None \<Rightarrow> (log1, Inl KeyError)
           | Some box \<Rightarrow>
               (let (log2, lab) = box_label0 n box
                in (log1 @ log2,
                    (case lab of
                       None \<Rightarrow> Inl AttributeError
                     | Some ls \<Rightarrow>
                         bind_err (compute_period n ls) (\<lambda>period.
                         bind_err (Interface n period) (\<lambda>itf.
                         bind_err (local_bounds gb (split itf) (get_coords itf)) (\<lambda>lb.
                         bind_err (override_interfaces n (Shift itf) ls) (\<lambda>ls'.
                           Inr \<lparr> dim = n, globalbounds = gb, bounds = lb, box_label = ls',
                                 list_elem = (case key_elements d of None \<Rightarrow> []
                                            | Some elem \<Rightarrow> fold (\<lambda>elemk l. l @ [elemk]) elem []),
                                 interface = itf \<rparr>)))))))))"

definition add_elem :: "geometry \<Rightarrow> element \<Rightarrow> geometry" where
  "add_elem g elem = g\<lparr> list_elem := list_elem g @ [elem] \<rparr>"

definition list_of_labels :: "geometry \<Rightarrow> int list" where
  "list_of_labels g =
     fold (\<lambda>elem L. np_union1d L (label elem)) (list_elem g) (np_unique (box_label g))"

text \<open>
  The methods of the class after construction, and the object after a call:
  \<^verbatim>\<open>__str__\<close>, \<^verbatim>\<open>visualize\<close> and \<^verbatim>\<open>list_of_labels\<close> assign no attribute.
\<close>

datatype method_call = Call_add_elem element | Call_str | Call_visualize | Call_list_of_labels

fun call :: "method_call \<Rightarrow> geometry \<Rightarrow> geometry" where
  "call (Call_add_elem elem) g = add_elem g elem"
| "call Call_str g = g"
| "call Call_visualize g = g"
| "call Call_list_of_labels g = g"

subsection \<open>Auxiliary notions for the proofs\<close>

definition period_step :: "int list \<Rightarrow> nat \<Rightarrow> bool list \<Rightarrow> bool list" where
  \<comment> \<open>one pass of the loop of line 128 when both reads are in range\<close>
  "period_step ls i p =
     (if ls ! (2 * i) = ls ! (2 * i + 1) \<and> ls ! (2 * i + 1) = - 1 then p[i := True] else p)"

definition overridden :: "(nat \<Rightarrow> rank \<times> rank) \<Rightarrow> nat list \<Rightarrow> int list \<Rightarrow> bool" where
  \<comment> \<open>every face of the axes \<open>is\<close> that has a neighbour is labelled -2\<close>
  "overridden sh is l \<longleftrightarrow>
     (\<forall>i\<in>set is. (fst (sh i) \<noteq> PROC_NULL \<longrightarrow> 2 * i < length l \<and> l ! (2 * i) = - 2)
        \<and> (snd (sh i) \<noteq> PROC_NULL \<longrightarrow> 2 * i + 1 < length l \<and> l ! (2 * i + 1) = - 2))"

definition local_row :: "f8 list \<Rightarrow> int \<Rightarrow> int \<Rightarrow> f8 list" where
  \<comment> \<open>one row of \<^verbatim>\<open>self.bounds\<close> after lines 137 to 140\<close>
  "local_row r s c =
     (let t = f8_div (f8_sub (r ! 1) (r ! 0)) (f8_of_int s)
      in r[1 := f8_add (r ! 0) (f8_mul t (f8_of_int (int64 (c + 1)))),
           0 := f8_add (r ! 0) (f8_mul t (f8_of_int c))])"

subsection \<open>Examples\<close>

text \<open>
  Two topologies: a run on one process, and the first of two processes that split the
  first axis (its only neighbour is on the high side of that axis).
\<close>

definition one_process :: "nat \<Rightarrow> bool list \<Rightarrow> py_error + interface" where
  "one_process n period =
     Inr \<lparr> split = replicate n 1, get_coords = replicate n 0,
           Shift = (\<lambda>i. (PROC_NULL, PROC_NULL)) \<rparr>"

definition first_of_two :: "nat \<Rightarrow> bool list \<Rightarrow> py_error + interface" where
  "first_of_two n period =
     Inr \<lparr> split = 2 # replicate (n - 1) 1, get_coords = replicate n 0,
           Shift = (\<lambda>i. if i = 0 then (PROC_NULL, Rank 1) else (PROC_NULL, PROC_NULL)) \<rparr>"

text \<open>
  The rectangular cavity of \<^verbatim>\<open>test_2D(1)\<close> with the label 1 on every face,
  \<^verbatim>\<open>{'box': {'x': [0, 2], 'y': [0, 1], 'label': 1}, 'elements': [Circle((0.5, 0.5), 0.1)]}\<close>,
  and the geometry that the first of two processes builds from it.
\<close>

definition circle :: element where
  "circle = \<lparr> isfluid = False, label = [3, 0], shape = ''Circle((0.5, 0.5), 0.1)'' \<rparr>"

definition triangle :: element where
  "triangle = \<lparr> isfluid = True, label = [4, 0, 4],
                 shape = ''Triangle((0.3, 0.3), (0.5, -0.1), (0.3, 0.5))'' \<rparr>"

definition dico_cavity :: dico where
  "dico_cavity =
     \<lparr> key_box = Some \<lparr> key_x = Some [PyInt 0, PyInt 2], key_y = Some [PyInt 0, PyInt 1],
                        key_z = None, key_label = Some (LabelInt 1) \<rparr>,
       key_elements = Some [circle] \<rparr>"

definition geom0 :: geometry where
  "geom0 =
     \<lparr> dim = 2,
       globalbounds = [[Finite False 0, Finite False 2], [Finite False 0, Finite False 1]],
       bounds = [[Finite False 0, Finite False 1], [Finite False 0, Finite False 1]],
       box_label = [1, - 2, 1, 1],
       list_elem = [circle],
       interface = \<lparr> split = [2, 1], get_coords = [0, 0],
         Shift = (\<lambda>i. if i = 0 then (PROC_NULL, Rank 1) else (PROC_NULL, PROC_NULL)) \<rparr> \<rparr>"

text \<open>
  A segment with three labels, \<^verbatim>\<open>{'box': {'x': [0, 1], 'label': [1, 2, 3]}}\<close>; a box
  that declares z and not y, \<^verbatim>\<open>{'box': {'x': [0, 1], 'z': [0, 1]}}\<close>; the segment
  \<^verbatim>\<open>{'box': {'x': [-2**53, 1]}}\<close>; a periodic segment,
  \<^verbatim>\<open>{'box': {'x': [0, 2], 'label': [-1, -1]}}\<close>; and a segment that does not start at 0.
\<close>

definition dico_long_label :: dico where
  "dico_long_label =
     \<lparr> key_box = Some \<lparr> key_x = Some [PyInt 0, PyInt 1], key_y = None, key_z = None,
                        key_label = Some (LabelList [1, 2, 3]) \<rparr>,
       key_elements = None \<rparr>"

definition dico_z_without_y :: dico where
  "dico_z_without_y =
     \<lparr> key_box = Some \<lparr> key_x = Some [PyInt 0, PyInt 1], key_y = None,
                        key_z = Some [PyInt 0, PyInt 1], key_label = None \<rparr>,
       key_elements = None \<rparr>"

definition dico_wide :: dico where
  "dico_wide =
     \<lparr> key_box = Some \<lparr> key_x = Some [PyInt (- (2 ^ 53)), PyInt 1], key_y = None, key_z = None,
                        key_label = None \<rparr>,
       key_elements = None \<rparr>"

definition dico_periodic :: dico where
  "dico_periodic =
     \<lparr> key_box = Some \<lparr> key_x = Some [PyInt 0, PyInt 2], key_y = None, key_z = None,
                        key_label = Some (LabelList [- 1, - 1]) \<rparr>,
       key_elements = None \<rparr>"



text \<open>
  A Cartesian topology as MPI gives it when \<open>p\<close> processes share the first axis and every
  other axis has one process: this process is at coordinate \<open>c\<close> of the first axis and
  has rank \<open>c\<close>. On a periodic axis the process at one end has the process at the other end
  as neighbour, itself when it is alone on the axis.
\<close>

definition cart_along_x :: "nat \<Rightarrow> nat \<Rightarrow> nat \<Rightarrow> bool list \<Rightarrow> py_error + interface" where
  "cart_along_x p c n period =
     Inr \<lparr> split = int p # replicate (n - 1) 1, get_coords = int c # replicate (n - 1) 0,
           Shift = (\<lambda>i.
             if i = 0 then
               (if 0 < c then Rank (c - 1) else if period ! 0 then Rank (p - 1) else PROC_NULL,
                if c + 1 < p then Rank (c + 1) else if period ! 0 then Rank 0 else PROC_NULL)
             else if i < n \<and> period ! i then (Rank c, Rank c)
             else (PROC_NULL, PROC_NULL)) \<rparr>"

definition no_periodic_axis :: "nat \<Rightarrow> bool list \<Rightarrow> py_error + interface" where
  \<comment> \<open>a constructor of the topology that refuses a periodic axis\<close>
  "no_periodic_axis n period =
     (if True \<in> set period then Inl MPIError else cart_along_x 1 0 n period)"


section \<open>Properties\<close>

subsection \<open>Results and errors\<close>

lemma bind_err_simps [simp]:
  "bind_err (Inl e) f = Inl e" "bind_err (Inr v) f = f v"
  by (simp_all add: bind_err_def)

lemma bind_err_Inr: "bind_err m f = Inr y \<longleftrightarrow> (\<exists>v. m = Inr v \<and> f v = Inr y)"
  by (cases m) simp_all

lemma map_err_length: "map_err f xs = Inr ys \<Longrightarrow> length ys = length xs"
  by (induction xs arbitrary: ys) (auto simp: bind_err_Inr)

lemma fold_append_each: "fold (\<lambda>elemk l. l @ [elemk]) es l0 = l0 @ es"
  by (induction es arbitrary: l0) simp_all

lemma list_update_same_value: "l ! k = v \<Longrightarrow> l[k := v] = l"
  by (metis list_update_id)

subsection \<open>Rounding at given values\<close>

lemma f8_round_0 [simp]: "f8_round s 0 = Finite s 0"
  by (simp add: f8_round_def)

lemma f8_round_sign: "f8_round s m = Finite s' r \<Longrightarrow> s' = s"
  by (simp add: f8_round_def Let_def split: if_splits)

text \<open>\<open>ilog2\<close> is the integer part of the binary logarithm.\<close>

lemma ilog2_bounds:
  assumes "0 < x"
  shows "2 powi ilog2 x \<le> x \<and> x < 2 powi (ilog2 x + 1)"
proof (cases "1 \<le> x")
  case True
  define n where "n = \<lfloor>x\<rfloor>"
  have n: "0 < n" using True by (simp add: n_def)
  define b where "b = bitlen n"
  have b: "1 \<le> b" using n by (simp add: b_def bitlen_alt_def)
  from bitlen_bounds [OF n] have lo: "2 ^ nat (b - 1) \<le> n" and hi: "n < 2 ^ nat b"
    by (simp_all add: b_def)
  have "(2::rat) powi (b - 1) = of_int (2 ^ nat (b - 1))"
    using b by (simp add: power_int_def)
  also have "\<dots> \<le> of_int n" using lo by (simp only: of_int_le_iff)
  also have "\<dots> \<le> x" by (simp add: n_def)
  finally have 1: "2 powi (b - 1) \<le> x" .
  have "x < of_int (n + 1)" by (simp add: n_def) linarith
  also have "\<dots> \<le> of_int (2 ^ nat b)" using hi by (simp only: of_int_le_iff; simp)
  also have "\<dots> = (2::rat) powi b" using b by (simp add: power_int_def)
  finally have 2: "x < 2 powi b" .
  from True 1 2 show ?thesis by (simp add: ilog2_def n_def b_def)
next
  case False
  define y where "y = 1 / x"
  have y: "1 < y" using assms False by (simp add: y_def)
  define c where "c = \<lceil>y\<rceil>"
  have c: "0 < c - 1" using y by (simp add: c_def less_ceiling_iff)
  define k where "k = bitlen (c - 1)"
  have k: "1 \<le> k" using c by (simp add: k_def bitlen_alt_def)
  from bitlen_bounds [OF c] have lo: "2 ^ nat (k - 1) \<le> c - 1" and hi: "c - 1 < 2 ^ nat k"
    by (simp_all add: k_def)
  have "y \<le> of_int c" by (simp add: c_def)
  also have "\<dots> \<le> of_int (2 ^ nat k)" using hi by (simp only: of_int_le_iff; simp)
  finally have yk: "y \<le> 2 ^ nat k" by simp
  have "(of_int (2 ^ nat (k - 1)) :: rat) \<le> of_int (c - 1)"
    using lo by (simp only: of_int_le_iff)
  also have "\<dots> < y" by (simp add: c_def) linarith
  finally have ky: "2 ^ nat (k - 1) < y" by simp
  have x: "x = 1 / y" using assms by (simp add: y_def)
  have 1: "2 powi (- k) \<le> x"
  proof -
    have "(2::rat) powi (- k) = inverse (2 powi k)" by (rule power_int_minus)
    also have "\<dots> = 1 / 2 ^ nat k" using k by (simp add: power_int_def inverse_eq_divide)
    also have "\<dots> \<le> 1 / y" using yk y by (simp add: frac_le)
    finally show ?thesis by (simp add: x)
  qed
  have 2: "x < 2 powi (- k + 1)"
  proof -
    have "1 / y < 1 / 2 ^ nat (k - 1)" using ky by (simp add: frac_less2)
    also have "\<dots> = inverse ((2::rat) powi (k - 1))"
      using k by (simp add: power_int_def inverse_eq_divide)
    also have "\<dots> = (2::rat) powi (- (k - 1))" by (rule power_int_minus [symmetric])
    also have "- (k - 1) = - k + 1" by simp
    finally show ?thesis by (simp add: x)
  qed
  from False 1 2 show ?thesis by (simp add: ilog2_def y_def c_def k_def)
qed

text \<open>
  Rounding at a given value is computed piece by piece. The model gives the binary64
  value of \<open>1 / 3\<close> and rounds \<open>2^53 + 1\<close> to the even neighbour \<open>2^53\<close>.
\<close>

lemma f8_round_eval:
  assumes "m \<noteq> 0" and "ilog2 m = e0" and "max e0 (- 1022) = e" and "2 powi (e - 52) = u"
    and "round_half_even (m / u) = n" and "of_int n * u = r" and "r < 2 ^ 1024"
  shows "f8_round s m = Finite s r"
  using assms by (simp add: f8_round_def Let_def)

lemma f8_round_1: "f8_round s 1 = Finite s 1"
  by (rule f8_round_eval [where ?e0.0 = 0 and e = 0 and u = "1 / 2 ^ 52" and n = "2 ^ 52"])
     (simp, code_simp, simp, simp add: power_int_def power_one_over, code_simp, simp, simp)

lemma f8_round_2: "f8_round s 2 = Finite s 2"
  by (rule f8_round_eval [where ?e0.0 = 1 and e = 1 and u = "1 / 2 ^ 51" and n = "2 ^ 52"])
     (simp, code_simp, simp, simp add: power_int_def power_one_over, code_simp, simp, simp)

lemma f8_round_2_53: "f8_round s 9007199254740992 = Finite s 9007199254740992"
  by (rule f8_round_eval [where ?e0.0 = 53 and e = 53 and u = 2 and n = "2 ^ 52"])
     (simp, code_simp, simp, simp add: power_int_def, code_simp, simp, simp)

lemma f8_round_2_53_1: "f8_round s 9007199254740993 = Finite s 9007199254740992"
  by (rule f8_round_eval [where ?e0.0 = 53 and e = 53 and u = 2 and n = "2 ^ 52"])
     (simp, code_simp, simp, simp add: power_int_def, code_simp, simp, simp)

lemma f8_round_3: "f8_round s 3 = Finite s 3"
  by (rule f8_round_eval [where ?e0.0 = 1 and e = 1 and u = "1 / 2 ^ 51" and n = "3 * 2 ^ 51"])
     (simp, code_simp, simp, simp add: power_int_def power_one_over, code_simp, simp, simp)

lemma f8_round_2_63: "f8_round s 9223372036854775808 = Finite s 9223372036854775808"
  by (rule f8_round_eval [where ?e0.0 = 63 and e = 63 and u = "2 ^ 11" and n = "2 ^ 52"])
     (simp, code_simp, simp, simp add: power_int_def, code_simp, simp, simp)

lemma f8_round_2_63_1: "f8_round s 9223372036854775807 = Finite s 9223372036854775808"
  by (rule f8_round_eval [where ?e0.0 = 62 and e = 62 and u = "2 ^ 10" and n = "2 ^ 53"])
     (simp, code_simp, simp, simp add: power_int_def, code_simp, simp, simp)

lemma int64_id: "- (2 ^ 63) \<le> n \<Longrightarrow> n < 2 ^ 63 \<Longrightarrow> int64 n = n"
  by (simp add: int64_def)

lemma f8_div_1_3:
  "f8_div (Finite False 1) (Finite False 3) = Finite False (6004799503160661 / 18014398509481984)"
proof -
  have "f8_round False (1 / 3) = Finite False (6004799503160661 / 18014398509481984)"
    by (rule f8_round_eval [where ?e0.0 = "- 2" and e = "- 2" and u = "1 / 2 ^ 54"
          and n = 6004799503160661])
       (simp, code_simp, simp, simp add: power_int_def power_one_over, code_simp, simp, simp)
  then show ?thesis by simp
qed

lemma f8_of_int_0: "f8_of_int 0 = Finite False 0"
  by (simp add: f8_of_int_def)

lemma f8_of_int_1: "f8_of_int 1 = Finite False 1"
  by (simp add: f8_of_int_def f8_round_1)

lemmas eval_defs =
  Geometry_init_def get_box_def np_asarray_f8_def as_f8_def f8_of_int_def
  box_label0_def init_box_label_def compute_period_def get_item_def
  local_bounds_def column_def broadcast2_def set_column_def f8_sub_def signed_def
  override_interfaces_def override_step_def set_item_def int64_def
  f8_round_1 f8_round_2 f8_round_3 f8_round_2_53 f8_round_2_53_1 f8_round_2_63 f8_round_2_63_1

lemma Geometry_init_cavity: "Geometry_init first_of_two dico_cavity = ([], Inr geom0)"
  by (simp add: eval_defs first_of_two_def dico_cavity_def geom0_def eval_nat_numeral)

subsection \<open>The box and the construction\<close>

lemma get_box_dim: "get_box d = (lg, Inr (n, gb)) \<Longrightarrow> length gb = n \<and> n \<in> {1, 2, 3}"
  by (auto simp: get_box_def np_asarray_f8_def bind_err_Inr
      split: option.splits if_splits dest: map_err_length)

lemma Geometry_init_Inr:
  assumes "Geometry_init Interface d = (lg, Inr g)"
  shows "\<exists>box lg1 gb lg2 ls period lb.
      key_box d = Some box \<and> get_box d = (lg1, Inr (dim g, gb))
    \<and> box_label0 (dim g) box = (lg2, Some ls) \<and> lg = lg1 @ lg2
    \<and> compute_period (dim g) ls = Inr period
    \<and> Interface (dim g) period = Inr (interface g)
    \<and> local_bounds gb (split (interface g)) (get_coords (interface g)) = Inr lb
    \<and> override_interfaces (dim g) (Shift (interface g)) ls = Inr (box_label g)
    \<and> globalbounds g = gb \<and> bounds g = lb
    \<and> list_elem g = (case key_elements d of None \<Rightarrow> [] | Some es \<Rightarrow> es)"
  using assms
  by (auto simp: Geometry_init_def bind_err_Inr fold_append_each
           split: prod.splits sum.splits option.splits)

text \<open>
  C2, as the code has it. Construction fails, after the error is logged, when the key
  'box' or the key 'x' is absent (the exception is the UnboundLocalError of the
  \<^verbatim>\<open>return\<close> of \<^verbatim>\<open>get_box\<close>), and it fails with ValueError when the bounds of x and
  of y have different lengths. When y is absent the box is the one-dimensional box of x,
  whether z is declared or not. The two numbers of a bound are taken as they are given:
  their order is not checked.
\<close>

theorem box_specification_errors:
  "(key_box d = None \<longrightarrow>
      Geometry_init Interface d = ([Box_key_not_found], Inl UnboundLocalError))
 \<and> (key_box d = Some box \<and> key_x box = None \<longrightarrow>
      Geometry_init Interface d = ([X_interval_not_found], Inl UnboundLocalError))
 \<and> (key_box d = Some box \<and> key_x box = Some bx \<and> key_y box = Some boxy
       \<and> length boxy \<noteq> length bx \<longrightarrow>
      Geometry_init Interface d = ([], Inl ValueError))
 \<and> (key_box d = Some box \<and> key_x box = Some bx \<and> key_y box = None \<longrightarrow>
      get_box d = ([], bind_err (np_asarray_f8 [bx]) (\<lambda>a. Inr (1, a))))
 \<and> (key_box d = Some box \<and> key_x box = Some [PyFloat lo, PyFloat hi] \<and> key_y box = None \<longrightarrow>
      get_box d = ([], Inr (1, [[lo, hi]])))"
  by (auto simp: Geometry_init_def get_box_def np_asarray_f8_def as_f8_def split: option.splits)

theorem box_specification_errors_witness:
  "Geometry_init one_process \<lparr> key_box = None, key_elements = None \<rparr>
     = ([Box_key_not_found], Inl UnboundLocalError)
 \<and> Geometry_init one_process
      \<lparr> key_box = Some \<lparr> key_x = None, key_y = None, key_z = Some [PyInt 0, PyInt 1],
                         key_label = None \<rparr>,
        key_elements = None \<rparr>
     = ([X_interval_not_found], Inl UnboundLocalError)
 \<and> Geometry_init one_process
      \<lparr> key_box = Some \<lparr> key_x = Some [PyInt 0, PyInt 1],
                         key_y = Some [PyInt 0, PyInt 1, PyInt 2],
                         key_z = None, key_label = None \<rparr>,
        key_elements = None \<rparr>
     = ([], Inl ValueError)
 \<and> get_box dico_z_without_y = ([], Inr (1, [[Finite False 0, Finite False 1]]))
 \<and> get_box \<lparr> key_box = Some \<lparr> key_x = Some [PyFloat (Finite False 1), PyFloat (Finite False 0)],
                                key_y = None, key_z = None, key_label = None \<rparr>,
               key_elements = None \<rparr>
     = ([], Inr (1, [[Finite False 1, Finite False 0]]))"
  using
    box_specification_errors [of "\<lparr> key_box = None, key_elements = None \<rparr>" one_process]
    box_specification_errors [of
        "\<lparr> key_box = Some \<lparr> key_x = None, key_y = None, key_z = Some [PyInt 0, PyInt 1],
                           key_label = None \<rparr>,
          key_elements = None \<rparr>" one_process
        "\<lparr> key_x = None, key_y = None, key_z = Some [PyInt 0, PyInt 1], key_label = None \<rparr>"]
    box_specification_errors [of
        "\<lparr> key_box = Some \<lparr> key_x = Some [PyInt 0, PyInt 1],
                           key_y = Some [PyInt 0, PyInt 1, PyInt 2],
                           key_z = None, key_label = None \<rparr>,
          key_elements = None \<rparr>" one_process
        "\<lparr> key_x = Some [PyInt 0, PyInt 1], key_y = Some [PyInt 0, PyInt 1, PyInt 2],
           key_z = None, key_label = None \<rparr>" "[PyInt 0, PyInt 1]" "[PyInt 0, PyInt 1, PyInt 2]"]
    box_specification_errors [of dico_z_without_y one_process
        "\<lparr> key_x = Some [PyInt 0, PyInt 1], key_y = None, key_z = Some [PyInt 0, PyInt 1],
           key_label = None \<rparr>"
        "[PyInt 0, PyInt 1]"]
    box_specification_errors [of
        "\<lparr> key_box = Some \<lparr> key_x = Some [PyFloat (Finite False 1), PyFloat (Finite False 0)],
                           key_y = None, key_z = None, key_label = None \<rparr>,
          key_elements = None \<rparr>" one_process
        "\<lparr> key_x = Some [PyFloat (Finite False 1), PyFloat (Finite False 0)],
           key_y = None, key_z = None, key_label = None \<rparr>" _ _ "Finite False 1" "Finite False 0"]
  by (simp add: dico_z_without_y_def np_asarray_f8_def as_f8_def f8_of_int_def f8_round_1)

text \<open>
  C2 as stated fails: the box that declares z without y is built, as the one-dimensional
  box of x, and no error is logged.
\<close>

theorem z_without_y_accepted:
  "(case Geometry_init one_process dico_z_without_y of
      (lg, Inr g) \<Rightarrow> lg = [] \<and> dim g = 1 \<and> globalbounds g = [[Finite False 0, Finite False 1]]
    | (lg, Inl e) \<Rightarrow> False)"
  by (simp add: eval_defs one_process_def dico_z_without_y_def)

subsection \<open>The initial labels and the periodicity\<close>

lemma period_loop_Inr_range:
  "period_loop ls is acc = Inr p \<Longrightarrow> \<forall>i\<in>set is. 2 * i + 1 < length ls"
  by (induction "is" arbitrary: acc)
     (auto simp: bind_err_Inr get_item_def split: if_splits)

lemma period_loop_fold:
  "\<forall>i\<in>set is. 2 * i + 1 < length ls \<Longrightarrow>
     period_loop ls is acc = Inr (fold (period_step ls) is acc)"
  by (induction "is" arbitrary: acc) (simp_all add: get_item_def period_step_def)

lemma period_loop_out_of_range:
  "\<exists>i\<in>set is. \<not> 2 * i + 1 < length ls \<Longrightarrow> period_loop ls is acc = Inl IndexError"
proof (induction "is" arbitrary: acc)
  case Nil
  then show ?case by simp
next
  case (Cons i "is")
  show ?case
  proof (cases "2 * i + 1 < length ls")
    case True
    with Cons.prems have "\<exists>j\<in>set is. \<not> 2 * j + 1 < length ls" by auto
    from Cons.IH [OF this] True show ?thesis by (simp add: get_item_def)
  next
    case False
    then show ?thesis by (simp add: get_item_def)
  qed
qed

lemma fold_period_step_upt:
  assumes "n \<le> length acc"
  shows "length (fold (period_step ls) [0..<n] acc) = length acc
    \<and> (\<forall>d<length acc. fold (period_step ls) [0..<n] acc ! d =
          (if d < n \<and> ls ! (2 * d) = - 1 \<and> ls ! (2 * d + 1) = - 1 then True else acc ! d))"
  using assms
proof (induction n)
  case 0
  show ?case by simp
next
  case (Suc n)
  then show ?case
    by (auto simp: period_step_def nth_list_update less_Suc_eq)
qed

lemma compute_period_nth:
  assumes "compute_period n ls = Inr p"
  shows "length p = n \<and> (\<forall>d<n. p ! d = (ls ! (2 * d) = - 1 \<and> ls ! (2 * d + 1) = - 1))
    \<and> (\<forall>d<n. 2 * d + 1 < length ls)"
proof -
  have r: "\<forall>i\<in>set [0..<n]. 2 * i + 1 < length ls"
    using assms period_loop_Inr_range unfolding compute_period_def by blast
  have "p = fold (period_step ls) [0..<n] (replicate n False)"
    using assms period_loop_fold [OF r, of "replicate n False"] by (simp add: compute_period_def)
  then show ?thesis
    using fold_period_step_upt [of n "replicate n False" ls] r by auto
qed

lemma compute_period_total:
  "2 * n \<le> length ls \<Longrightarrow> \<exists>p. compute_period n ls = Inr p"
  unfolding compute_period_def
  by (rule exI, rule period_loop_fold) auto

lemma compute_period_short:
  assumes "length ls < 2 * n"
  shows "compute_period n ls = Inl IndexError"
proof -
  have "n - 1 \<in> set [0..<n]" and "\<not> 2 * (n - 1) + 1 < length ls"
    using assms by auto
  then have "\<exists>i\<in>set [0..<n]. \<not> 2 * i + 1 < length ls" by blast
  then show ?thesis
    unfolding compute_period_def by (rule period_loop_out_of_range)
qed

text \<open>
  C1, as the code has it. For a box whose 'label' is a list: when the length of the list
  differs from \<open>2 * dim\<close> the constructor logs the error "The list label of the box has
  the wrong size (must be 2*dim)" and raises nothing at that point; whatever its length,
  the list is taken as it is as \<^verbatim>\<open>box_label\<close>. A list shorter than \<open>2 * dim\<close> then
  stops the construction with IndexError in the periodicity loop, before the
  decomposition; a list of \<open>2 * dim\<close> entries or more passes that loop.
\<close>

theorem label_list_verbatim:
  assumes "key_box d = Some box" and "key_label box = Some (LabelList ls)"
    and "get_box d = (lg, Inr (n, gb))"
  shows "box_label0 n box = (if length ls \<noteq> 2 * n then [Label_wrong_size] else [], Some ls)
    \<and> fst (Geometry_init Interface d) = lg @ (if length ls \<noteq> 2 * n then [Label_wrong_size] else [])
    \<and> (length ls < 2 * n \<longrightarrow> snd (Geometry_init Interface d) = Inl IndexError)
    \<and> (2 * n \<le> length ls \<longrightarrow> (\<exists>period. compute_period n ls = Inr period))"
  using assms compute_period_short [of ls n] compute_period_total [of n ls]
  by (simp add: box_label0_def init_box_label_def Geometry_init_def)

theorem label_list_verbatim_witness:
  "box_label0 1 \<lparr> key_x = Some [PyInt 0, PyInt 1], key_y = None, key_z = None,
                  key_label = Some (LabelList [1, 2, 3]) \<rparr> = ([Label_wrong_size], Some [1, 2, 3])
 \<and> fst (Geometry_init one_process dico_long_label) = [Label_wrong_size]
 \<and> box_label0 1 \<lparr> key_x = Some [PyInt 0, PyInt 2], key_y = None, key_z = None,
                  key_label = Some (LabelList [- 1, - 1]) \<rparr> = ([], Some [- 1, - 1])
 \<and> fst (Geometry_init one_process dico_periodic) = []"
  using
    label_list_verbatim [of dico_long_label
      "\<lparr> key_x = Some [PyInt 0, PyInt 1], key_y = None, key_z = None,
         key_label = Some (LabelList [1, 2, 3]) \<rparr>" "[1, 2, 3]" "[]" 1
      "[[Finite False 0, Finite False 1]]" one_process]
    label_list_verbatim [of dico_periodic
      "\<lparr> key_x = Some [PyInt 0, PyInt 2], key_y = None, key_z = None,
         key_label = Some (LabelList [- 1, - 1]) \<rparr>" "[- 1, - 1]" "[]" 1
      "[[Finite False 0, Finite False 2]]" one_process]
  by (simp add: dico_long_label_def dico_periodic_def get_box_def np_asarray_f8_def as_f8_def
      f8_of_int_def f8_round_1 f8_round_2)

text \<open>
  C1 as stated fails: with three labels on a segment the construction logs the error and
  returns a geometry that carries the three labels.
\<close>

theorem long_label_accepted:
  "(case Geometry_init one_process dico_long_label of
      (lg, Inr g) \<Rightarrow> lg = [Label_wrong_size] \<and> dim g = 1 \<and> box_label g = [1, 2, 3]
    | (lg, Inl e) \<Rightarrow> False)"
  by (simp add: eval_defs one_process_def dico_long_label_def)

lemma Geometry_init_unfold:
  assumes "get_box d = (lg, Inr (n, gb))" and "key_box d = Some box"
    and "box_label0 n box = (lg2, Some ls)"
  shows "Geometry_init Interface d =
    (lg @ lg2,
     bind_err (compute_period n ls) (\<lambda>period.
     bind_err (Interface n period) (\<lambda>itf.
     bind_err (local_bounds gb (split itf) (get_coords itf)) (\<lambda>lb.
     bind_err (override_interfaces n (Shift itf) ls) (\<lambda>ls'.
       Inr \<lparr> dim = n, globalbounds = gb, bounds = lb, box_label = ls',
             list_elem = (case key_elements d of None \<Rightarrow> [] | Some es \<Rightarrow> es),
             interface = itf \<rparr>)))))"
  using assms by (cases "key_elements d") (simp_all add: Geometry_init_def fold_append_each)

text \<open>
  C6. For a box whose label array has its \<open>2 * dim\<close> entries, the periodicity loop
  returns a vector with one entry for each axis, the entry of axis \<open>i\<close> being true exactly
  when the labels \<open>2 * i\<close> and \<open>2 * i + 1\<close>, as they are before the override loop, are both
  -1. The constructor gives this vector to the constructor of the topology: an error of
  that call is the result of the construction, the topology it returns is the one the
  geometry keeps, and the construction reads the constructor of the topology at this
  vector only. The vector is computed from the dimension and the labels alone, whatever
  the topology and its split factors.
\<close>

theorem period_from_initial_labels:
  assumes "get_box d = (lg, Inr (n, gb))" and "key_box d = Some box"
    and "box_label0 n box = (lg2, Some ls)" and "2 * n \<le> length ls"
  shows "\<exists>period. compute_period n ls = Inr period \<and> length period = n
    \<and> (\<forall>i<n. period ! i = (ls ! (2 * i) = - 1 \<and> ls ! (2 * i + 1) = - 1))
    \<and> (\<forall>e. Interface n period = Inl e \<longrightarrow> Geometry_init Interface d = (lg @ lg2, Inl e))
    \<and> (\<forall>g. snd (Geometry_init Interface d) = Inr g \<longrightarrow> Interface n period = Inr (interface g))
    \<and> (Interface' n period = Interface n period \<longrightarrow>
          Geometry_init Interface' d = Geometry_init Interface d)"
proof -
  from compute_period_total [OF assms(4)] obtain period where
    p: "compute_period n ls = Inr period" by blast
  note u = Geometry_init_unfold [OF assms(1,2,3)]
  have "\<forall>e. Interface n period = Inl e \<longrightarrow> Geometry_init Interface d = (lg @ lg2, Inl e)"
    by (simp add: u p)
  moreover have "\<forall>g. snd (Geometry_init Interface d) = Inr g \<longrightarrow>
      Interface n period = Inr (interface g)"
    by (auto simp: u p bind_err_Inr)
  moreover have "Interface' n period = Interface n period \<longrightarrow>
      Geometry_init Interface' d = Geometry_init Interface d"
    by (simp add: u p)
  ultimately show ?thesis
    using p compute_period_nth [OF p] by blast
qed

theorem period_from_initial_labels_witness:
  "compute_period 1 [- 1, - 1] = Inr [True]
 \<and> Geometry_init no_periodic_axis dico_periodic = ([], Inl MPIError)
 \<and> (case Geometry_init (cart_along_x 1 0) dico_periodic of
      (lg, Inr g) \<Rightarrow> split (interface g) = [1] \<and> Shift (interface g) 0 = (Rank 0, Rank 0)
         \<and> box_label g = [- 2, - 2]
    | (lg, Inl e) \<Rightarrow> False)
 \<and> (case Geometry_init (cart_along_x 2 0) dico_periodic of
      (lg, Inr g) \<Rightarrow> split (interface g) = [2] \<and> Shift (interface g) 0 = (Rank 1, Rank 1)
         \<and> box_label g = [- 2, - 2]
    | (lg, Inl e) \<Rightarrow> False)"
  using
    period_from_initial_labels [of dico_periodic "[]" 1 "[[Finite False 0, Finite False 2]]"
      "\<lparr> key_x = Some [PyInt 0, PyInt 2], key_y = None, key_z = None,
         key_label = Some (LabelList [- 1, - 1]) \<rparr>" "[]" "[- 1, - 1]"
      no_periodic_axis "cart_along_x 1 0"]
  by (simp add: eval_defs dico_periodic_def no_periodic_axis_def cart_along_x_def)

subsection \<open>The labels of the interfaces\<close>

lemma override_loop_append:
  "override_loop sh (xs @ ys) ls = bind_err (override_loop sh xs ls) (override_loop sh ys)"
  by (induction xs arbitrary: ls) (simp_all add: bind_err_def split: sum.splits)

lemma override_step_in_range:
  assumes "2 * i + 1 < length ls"
  shows "override_step sh ls i =
    Inr ((if snd (sh i) \<noteq> PROC_NULL then (\<lambda>l. l[2 * i + 1 := - 2]) else (\<lambda>l. l))
          ((if fst (sh i) \<noteq> PROC_NULL then (\<lambda>l. l[2 * i := - 2]) else (\<lambda>l. l)) ls))"
  using assms by (simp add: override_step_def set_item_def Let_def)

lemma override_interfaces_nth:
  assumes "2 * n \<le> length ls"
  shows "\<exists>ls'. override_interfaces n sh ls = Inr ls' \<and> length ls' = length ls
    \<and> (\<forall>k<length ls. ls' ! k =
          (if k < 2 * n \<and> (if even k then fst (sh (k div 2)) else snd (sh (k div 2))) \<noteq> PROC_NULL
           then - 2 else ls ! k))"
  using assms
proof (induction n)
  case 0
  show ?case by (simp add: override_interfaces_def)
next
  case (Suc n)
  from Suc obtain l1 where l1: "override_interfaces n sh ls = Inr l1" "length l1 = length ls"
    and nth1: "\<And>k. k < length ls \<Longrightarrow> l1 ! k =
          (if k < 2 * n \<and> (if even k then fst (sh (k div 2)) else snd (sh (k div 2))) \<noteq> PROC_NULL
           then - 2 else ls ! k)"
    by auto
  have r: "2 * n + 1 < length l1" using Suc.prems l1 by simp
  let ?l2 = "(if snd (sh n) \<noteq> PROC_NULL then (\<lambda>l. l[2 * n + 1 := - 2]) else (\<lambda>l. l))
          ((if fst (sh n) \<noteq> PROC_NULL then (\<lambda>l. l[2 * n := - 2]) else (\<lambda>l. l)) l1)"
  have eq: "override_interfaces (Suc n) sh ls = Inr ?l2"
    using l1 override_step_in_range [OF r, of sh]
    by (simp add: override_interfaces_def override_loop_append)
  have len: "length ?l2 = length ls" using l1 by simp
  have "?l2 ! k =
      (if k < 2 * Suc n \<and> (if even k then fst (sh (k div 2)) else snd (sh (k div 2))) \<noteq> PROC_NULL
       then - 2 else ls ! k)" if k: "k < length ls" for k
  proof -
    consider "k < 2 * n" | "k = 2 * n" | "k = 2 * n + 1" | "2 * n + 1 < k" by linarith
    then show ?thesis
    proof cases
      case 1
      then show ?thesis using nth1 [OF k] l1 k by (simp add: nth_list_update)
    next
      case 2
      then show ?thesis using nth1 [OF k] l1 k by (simp add: nth_list_update)
    next
      case 3
      then show ?thesis using nth1 [OF k] l1 k by (simp add: nth_list_update)
    next
      case 4
      then show ?thesis using nth1 [OF k] l1 k by (simp add: nth_list_update)
    qed
  qed
  with eq len show ?case by blast
qed

text \<open>
  When the constructor reaches the override loop the label array has at least
  \<open>2 * dim\<close> entries: the periodicity loop has read them all.
\<close>

lemma Geometry_init_label_length:
  assumes "Geometry_init Interface d = (lg, Inr g)"
  shows "\<exists>box ls. key_box d = Some box \<and> snd (box_label0 (dim g) box) = Some ls
    \<and> 2 * dim g \<le> length ls
    \<and> override_interfaces (dim g) (Shift (interface g)) ls = Inr (box_label g)"
proof -
  from Geometry_init_Inr [OF assms] obtain box lg2 ls period where 1:
    "key_box d = Some box" "box_label0 (dim g) box = (lg2, Some ls)"
    "compute_period (dim g) ls = Inr period"
    "override_interfaces (dim g) (Shift (interface g)) ls = Inr (box_label g)"
    by blast
  have "2 * dim g \<le> length ls"
  proof (cases "dim g")
    case 0
    then show ?thesis by simp
  next
    case (Suc m)
    with compute_period_nth [OF 1(3)] have "2 * m + 1 < length ls" by simp
    with Suc show ?thesis by simp
  qed
  with 1 show ?thesis by simp
qed

text \<open>
  C5. On a label array that has its \<open>2 * dim\<close> entries the override loop ends without
  error, and for every axis \<open>k\<close>: the label \<open>2 * k\<close> is -2 when \<^verbatim>\<open>Shift(k, 1)\<close> gives a
  neighbour on the low side and is unchanged when it gives \<^verbatim>\<open>PROC_NULL\<close>; the label
  \<open>2 * k + 1\<close> is -2 when there is a neighbour on the high side and is unchanged when
  there is none; the array keeps its length and its entries after the first \<open>2 * dim\<close>.
\<close>

theorem override_sets_interfaces:
  assumes "2 * n \<le> length ls" and "k < n"
  shows "\<exists>ls'. override_interfaces n sh ls = Inr ls' \<and> length ls' = length ls
    \<and> ls' ! (2 * k) = (if fst (sh k) \<noteq> PROC_NULL then - 2 else ls ! (2 * k))
    \<and> ls' ! (2 * k + 1) = (if snd (sh k) \<noteq> PROC_NULL then - 2 else ls ! (2 * k + 1))
    \<and> (\<forall>j. 2 * n \<le> j \<and> j < length ls \<longrightarrow> ls' ! j = ls ! j)"
proof -
  from override_interfaces_nth [OF assms(1), of sh] obtain ls' where
    r: "override_interfaces n sh ls = Inr ls'" "length ls' = length ls"
    and nth: "\<And>j. j < length ls \<Longrightarrow> ls' ! j =
          (if j < 2 * n \<and> (if even j then fst (sh (j div 2)) else snd (sh (j div 2))) \<noteq> PROC_NULL
           then - 2 else ls ! j)"
    by blast
  have "ls' ! (2 * k) = (if fst (sh k) \<noteq> PROC_NULL then - 2 else ls ! (2 * k))"
    using nth [of "2 * k"] assms by simp
  moreover have "ls' ! (2 * k + 1) = (if snd (sh k) \<noteq> PROC_NULL then - 2 else ls ! (2 * k + 1))"
    using nth [of "2 * k + 1"] assms by simp
  moreover have "\<forall>j. 2 * n \<le> j \<and> j < length ls \<longrightarrow> ls' ! j = ls ! j"
    using nth by simp
  ultimately show ?thesis using r by blast
qed

theorem override_sets_interfaces_witness:
  "override_interfaces 2 (Shift (interface geom0)) [1, 1, 1, 1, 7] = Inr [1, - 2, 1, 1, 7]"
proof -
  from override_sets_interfaces [of 2 "[1, 1, 1, 1, 7]" 0 "Shift (interface geom0)"]
  obtain ls' where r: "override_interfaces 2 (Shift (interface geom0)) [1, 1, 1, 1, 7] = Inr ls'"
    and "ls' ! 1 = - 2"
    by (auto simp: geom0_def)
  then show ?thesis
    by (simp add: override_interfaces_def override_step_def set_item_def geom0_def eval_nat_numeral)
qed

lemma override_step_length: "override_step sh ls i = Inr ls' \<Longrightarrow> length ls' = length ls"
  by (auto simp: override_step_def set_item_def Let_def bind_err_Inr split: if_splits)

lemma override_loop_length: "override_loop sh is ls = Inr ls' \<Longrightarrow> length ls' = length ls"
  by (induction "is" arbitrary: ls) (auto simp: bind_err_Inr dest: override_step_length)

lemma override_step_keeps:
  "override_step sh ls i = Inr ls' \<Longrightarrow> k < length ls \<Longrightarrow> ls ! k = - 2 \<Longrightarrow> ls' ! k = - 2"
  by (auto simp: override_step_def set_item_def Let_def bind_err_Inr nth_list_update
      split: if_splits)

lemma override_loop_keeps:
  "override_loop sh is ls = Inr ls' \<Longrightarrow> k < length ls \<Longrightarrow> ls ! k = - 2 \<Longrightarrow> ls' ! k = - 2"
proof (induction "is" arbitrary: ls)
  case Nil
  then show ?case by simp
next
  case (Cons i "is")
  from Cons.prems(1) obtain l1 where s: "override_step sh ls i = Inr l1"
    and r: "override_loop sh is l1 = Inr ls'"
    by (auto simp: bind_err_Inr)
  have "l1 ! k = - 2" using override_step_keeps [OF s Cons.prems(2,3)] .
  moreover have "k < length l1" using override_step_length [OF s] Cons.prems(2) by simp
  ultimately show ?case using Cons.IH [OF r] by simp
qed

lemma override_step_done:
  "override_step sh ls i = Inr ls' \<Longrightarrow>
     (fst (sh i) \<noteq> PROC_NULL \<longrightarrow> 2 * i < length ls' \<and> ls' ! (2 * i) = - 2)
     \<and> (snd (sh i) \<noteq> PROC_NULL \<longrightarrow> 2 * i + 1 < length ls' \<and> ls' ! (2 * i + 1) = - 2)"
  by (auto simp: override_step_def set_item_def Let_def bind_err_Inr nth_list_update
      split: if_splits)

lemma override_loop_overridden:
  "override_loop sh is ls = Inr ls' \<Longrightarrow> overridden sh is ls'"
proof (induction "is" arbitrary: ls)
  case Nil
  then show ?case by (simp add: overridden_def)
next
  case (Cons i "is")
  from Cons.prems obtain l1 where s: "override_step sh ls i = Inr l1"
    and r: "override_loop sh is l1 = Inr ls'"
    by (auto simp: bind_err_Inr)
  have len: "length ls' = length l1" using override_loop_length [OF r] .
  have "overridden sh is ls'" using Cons.IH [OF r] .
  moreover have "(fst (sh i) \<noteq> PROC_NULL \<longrightarrow> 2 * i < length ls' \<and> ls' ! (2 * i) = - 2)
     \<and> (snd (sh i) \<noteq> PROC_NULL \<longrightarrow> 2 * i + 1 < length ls' \<and> ls' ! (2 * i + 1) = - 2)"
    using override_step_done [OF s] override_loop_keeps [OF r] len by auto
  ultimately show ?case by (simp add: overridden_def)
qed

lemma overridden_fixed: "overridden sh is l \<Longrightarrow> override_loop sh is l = Inr l"
proof (induction "is")
  case Nil
  show ?case by simp
next
  case (Cons i "is")
  have "override_step sh l i = Inr l"
    using Cons.prems
    by (auto simp: overridden_def override_step_def set_item_def Let_def list_update_same_value)
  moreover have "overridden sh is l" using Cons.prems by (simp add: overridden_def)
  ultimately show ?case using Cons.IH by simp
qed

text \<open>
  C7. With the same neighbours, the override loop applied to its own result returns that
  result: applying it twice gives the label array that applying it once gives.
\<close>

theorem override_idempotent:
  "override_interfaces n sh ls = Inr ls' \<Longrightarrow> override_interfaces n sh ls' = Inr ls'"
  unfolding override_interfaces_def
  by (rule overridden_fixed) (rule override_loop_overridden)

theorem override_idempotent_witness:
  "override_interfaces 2 (Shift (interface geom0)) [1, 1, 1, 1] = Inr [1, - 2, 1, 1]
 \<and> override_interfaces 2 (Shift (interface geom0)) [1, - 2, 1, 1] = Inr [1, - 2, 1, 1]"
proof -
  have 1: "override_interfaces 2 (Shift (interface geom0)) [1, 1, 1, 1] = Inr [1, - 2, 1, 1]"
    by (simp add: override_interfaces_def override_step_def set_item_def geom0_def eval_nat_numeral)
  from override_idempotent [OF 1] 1 show ?thesis by simp
qed

subsection \<open>The decomposition\<close>

lemma local_bounds_rows:
  assumes "length splt = length gb" and "length coords = length gb"
    and rows: "list_all (\<lambda>r. 1 < length r) gb"
  shows "local_bounds gb splt coords =
    Inr (map (\<lambda>(r, s, c). local_row r s c) (zip gb (zip splt coords)))"
proof -
  have r0: "list_all (\<lambda>r. 0 < length r) gb"
    using rows by (induction gb) auto
  let ?b1 = "map (\<lambda>r. r ! 1) gb" and ?b0 = "map (\<lambda>r. r ! 0) gb"
  let ?t = "map2 (\<lambda>a s. f8_div a (f8_of_int s)) (map2 f8_sub ?b1 ?b0) splt"
  let ?high = "map2 f8_add ?b0
      (map2 (\<lambda>a c. f8_mul a (f8_of_int c)) ?t (map (\<lambda>c. int64 (c + 1)) coords))"
  let ?bounds1 = "map2 (\<lambda>r x. r[1 := x]) gb ?high"
  let ?low = "map2 f8_add (map (\<lambda>r. r ! 0) ?bounds1)
      (map2 (\<lambda>a c. f8_mul a (f8_of_int c)) ?t coords)"
  have all1: "list_all (\<lambda>r. 0 < length r) ?bounds1"
    using r0 assms(1,2) by (auto simp: list_all_length)
  have "local_bounds gb splt coords = Inr (map2 (\<lambda>r x. r[0 := x]) ?bounds1 ?low)"
    using assms(1,2) rows r0 all1
    by (simp add: local_bounds_def column_def broadcast2_def set_column_def)
  also have "map2 (\<lambda>r x. r[0 := x]) ?bounds1 ?low
      = map (\<lambda>(r, s, c). local_row r s c) (zip gb (zip splt coords))"
    using assms(1,2) by (auto intro!: nth_equalityI simp: local_row_def Let_def)
  finally show ?thesis .
qed

lemma local_bounds_Inr_rows:
  "local_bounds gb splt coords = Inr lb \<Longrightarrow> list_all (\<lambda>r. 1 < length r) gb"
  by (auto simp: local_bounds_def bind_err_Inr column_def split: if_splits)

lemma local_bounds_axis:
  assumes "local_bounds gb splt coords = Inr lb"
    and "length splt = length gb" and "length coords = length gb" and "k < length gb"
  shows "length lb = length gb \<and> lb ! k = local_row (gb ! k) (splt ! k) (coords ! k)
    \<and> 1 < length (gb ! k)"
proof -
  have rows: "list_all (\<lambda>r. 1 < length r) gb"
    using assms(1) by (rule local_bounds_Inr_rows)
  from assms(1) local_bounds_rows [OF assms(2,3) rows]
  have "lb = map (\<lambda>(r, s, c). local_row r s c) (zip gb (zip splt coords))" by simp
  then show ?thesis using assms(2,3,4) rows by (simp add: list_all_length)
qed

lemma local_row_nth:
  assumes "1 < length r"
  shows "local_row r s c ! 0 =
      f8_add (r ! 0) (f8_mul (f8_div (f8_sub (r ! Suc 0) (r ! 0)) (f8_of_int s)) (f8_of_int c))"
    and "local_row r s c ! Suc 0 =
      f8_add (r ! 0) (f8_mul (f8_div (f8_sub (r ! Suc 0) (r ! 0)) (f8_of_int s)) (f8_of_int (int64 (c + 1))))"
proof -
  have "0 < length r" using assms by (cases r) simp_all
  then show "local_row r s c ! 0 =
      f8_add (r ! 0) (f8_mul (f8_div (f8_sub (r ! Suc 0) (r ! 0)) (f8_of_int s)) (f8_of_int c))"
    by (simp add: local_row_def Let_def)
  show "local_row r s c ! Suc 0 =
      f8_add (r ! 0) (f8_mul (f8_div (f8_sub (r ! Suc 0) (r ! 0)) (f8_of_int s)) (f8_of_int (int64 (c + 1))))"
    using assms by (simp add: local_row_def Let_def)
qed

lemma Geometry_init_bounds:
  assumes "Geometry_init Interface d = (lg, Inr g)"
    and "length (split (interface g)) = dim g" and "length (get_coords (interface g)) = dim g"
    and "k < dim g"
  shows "snd (get_box d) = Inr (dim g, globalbounds g)"
    and "bounds g ! k =
      local_row (globalbounds g ! k) (split (interface g) ! k) (get_coords (interface g) ! k)"
    and "1 < length (globalbounds g ! k)"
proof -
  from Geometry_init_Inr [OF assms(1)] obtain lg1 where
    gb: "get_box d = (lg1, Inr (dim g, globalbounds g))"
    and lb: "local_bounds (globalbounds g) (split (interface g)) (get_coords (interface g))
      = Inr (bounds g)"
    by auto
  show "snd (get_box d) = Inr (dim g, globalbounds g)" using gb by simp
  have len: "length (globalbounds g) = dim g" using get_box_dim [OF gb] by simp
  from local_bounds_axis [OF lb] assms(2,3,4) len
  show "bounds g ! k =
      local_row (globalbounds g ! k) (split (interface g) ! k) (get_coords (interface g) ! k)"
    and "1 < length (globalbounds g ! k)" by simp_all
qed




lemma exact_sub_rounded:
  assumes sub: "f8_sub (Finite s' b) (Finite s a) = Finite s'' m"
    and exact: "signed s'' m = signed s' b - signed s a"
  shows "f8_round s'' m = Finite s'' m \<and> 0 \<le> m"
proof -
  define x where "x = signed s' b - signed s a"
  have neg: "signed s' b + signed (\<not> s) a = x"
    by (simp add: x_def signed_def)
  show ?thesis
  proof (cases "x = 0")
    case True
    with sub neg have "m = 0" by (simp add: f8_sub_def)
    then show ?thesis by simp
  next
    case False
    with sub neg have r: "f8_round (x < 0) \<bar>x\<bar> = Finite s'' m"
      by (simp add: f8_sub_def)
    then have sg: "s'' = (x < 0)" by (rule f8_round_sign)
    have "m = \<bar>x\<bar>" using exact sg by (auto simp: x_def signed_def split: if_splits)
    with r sg show ?thesis by simp
  qed
qed

lemma identity_split:
  assumes lo: "is_f8 (Finite s a)" "Finite s a \<noteq> Finite True 0"
    and hi: "is_f8 (Finite s' b)" "Finite s' b \<noteq> Finite True 0"
    and sub: "f8_sub (Finite s' b) (Finite s a) = Finite s'' m"
    and exact: "signed s'' m = signed s' b - signed s a"
  shows "f8_add (Finite s a)
      (f8_mul (f8_div (f8_sub (Finite s' b) (Finite s a)) (f8_of_int 1)) (f8_of_int 0))
      = Finite s a"
    and "f8_add (Finite s a)
      (f8_mul (f8_div (f8_sub (Finite s' b) (Finite s a)) (f8_of_int 1)) (f8_of_int (0 + 1)))
      = Finite s' b"
proof -
  have a: "0 \<le> a" "f8_round s a = Finite s a" using lo(1) by (simp_all add: is_f8_def)
  have b: "0 \<le> b" "f8_round s' b = Finite s' b" using hi(1) by (simp_all add: is_f8_def)
  have m: "f8_round s'' m = Finite s'' m" "0 \<le> m"
    using exact_sub_rounded [OF sub exact] by simp_all
  have t: "f8_div (f8_sub (Finite s' b) (Finite s a)) (f8_of_int 1) = Finite s'' m"
    using m by (simp add: sub f8_of_int_1)
  have t0: "f8_mul (Finite s'' m) (f8_of_int 0) = Finite s'' 0"
    by (simp add: f8_of_int_0)
  have t1: "f8_mul (Finite s'' m) (f8_of_int (0 + 1)) = Finite s'' m"
    using m by (simp add: f8_of_int_1)
  show "f8_add (Finite s a)
      (f8_mul (f8_div (f8_sub (Finite s' b) (Finite s a)) (f8_of_int 1)) (f8_of_int 0))
      = Finite s a"
    unfolding t t0 using a lo(2) by (cases s) (auto simp: signed_def)
  have sum: "signed s a + signed s'' m = signed s' b" using exact by simp
  show "f8_add (Finite s a)
      (f8_mul (f8_div (f8_sub (Finite s' b) (Finite s a)) (f8_of_int 1)) (f8_of_int (0 + 1)))
      = Finite s' b"
  proof (cases "signed s' b = 0")
    case True
    then have b0: "b = 0" "\<not> s'" using hi(2) by (auto simp: signed_def split: if_splits)
    have "\<not> (s \<and> s'')"
      using sum True a(1) m(2) lo(2) by (auto simp: signed_def split: if_splits)
    then show ?thesis unfolding t t1 using sum True b0 by (simp add: Let_def)
  next
    case False
    then have "(signed s' b < 0) = s'" "\<bar>signed s' b\<bar> = b"
      using b(1) by (auto simp: signed_def split: if_splits)
    then show ?thesis unfolding t t1 using sum False b(2) by (simp add: Let_def)
  qed
qed

text \<open>
  C4, as the code has it. On an axis with split factor 1 and coordinate 0 the code still
  computes \<open>low + ((high - low) / 1) * 1\<close> in binary64. When the two global bounds are
  finite and none is the negative zero, and the difference \<open>high - low\<close> is a binary64
  value (the subtraction does not round), the local bounds are the global bounds, bit for
  bit.
\<close>

theorem identity_split_exact:
  assumes "Geometry_init Interface d = (lg, Inr g)"
    and "length (split (interface g)) = dim g" and "length (get_coords (interface g)) = dim g"
    and "k < dim g"
    and "split (interface g) ! k = 1" and "get_coords (interface g) ! k = 0"
    and "globalbounds g ! k ! 0 = Finite s a" and "globalbounds g ! k ! 1 = Finite s' b"
    and "is_f8 (Finite s a)" and "is_f8 (Finite s' b)"
    and "Finite s a \<noteq> Finite True 0" and "Finite s' b \<noteq> Finite True 0"
    and "f8_sub (Finite s' b) (Finite s a) = Finite s'' m"
    and "signed s'' m = signed s' b - signed s a"
  shows "bounds g ! k ! 0 = globalbounds g ! k ! 0 \<and> bounds g ! k ! 1 = globalbounds g ! k ! 1"
proof -
  from Geometry_init_bounds(2,3) [OF assms(1,2,3,4)]
  have "bounds g ! k ! 0 = f8_add (Finite s a)
      (f8_mul (f8_div (f8_sub (Finite s' b) (Finite s a)) (f8_of_int 1)) (f8_of_int 0))"
    and "bounds g ! k ! 1 = f8_add (Finite s a)
      (f8_mul (f8_div (f8_sub (Finite s' b) (Finite s a)) (f8_of_int 1)) (f8_of_int (0 + 1)))"
    using assms(5,6,7,8) by (simp_all add: local_row_nth int64_id)
  then show ?thesis
    using identity_split [OF assms(9,11,10,12,13,14)] assms(7,8) by simp
qed

theorem identity_split_exact_witness:
  "split (interface geom0) ! 1 = 1 \<and> get_coords (interface geom0) ! 1 = 0
 \<and> globalbounds geom0 ! 1 = [Finite False 0, Finite False 1]
 \<and> bounds geom0 ! 1 ! 0 = Finite False 0 \<and> bounds geom0 ! 1 ! 1 = Finite False 1"
  using identity_split_exact [OF Geometry_init_cavity, of 1 False 0 False 1 False 1]
  by (simp add: geom0_def is_f8_def f8_round_1 f8_sub_def signed_def)

text \<open>
  C4 as stated fails. On one process the segment from \<open>-2^53\<close> to 1 has split factor 1
  and coordinate 0; \<open>1 - (-2^53)\<close> rounds to \<open>2^53\<close>, and the local high bound is 0, not 1.
\<close>

theorem identity_split_not_exact:
  "(case Geometry_init one_process dico_wide of
      (lg, Inr g) \<Rightarrow> split (interface g) = [1] \<and> get_coords (interface g) = [0]
         \<and> globalbounds g = [[Finite True (2 ^ 53), Finite False 1]]
         \<and> bounds g = [[Finite True (2 ^ 53), Finite False 0]]
    | (lg, Inl e) \<Rightarrow> False)"
  by (simp add: eval_defs one_process_def dico_wide_def)

subsection \<open>The labels of the geometry\<close>

lemma set_np_unique: "set (np_unique xs) = set xs"
  by (simp add: np_unique_def)

lemma set_np_union1d: "set (np_union1d a b) = set a \<union> set b"
  by (simp add: np_union1d_def set_np_unique)

lemma strict_np_unique: "sorted_wrt (<) (np_unique xs)"
  by (simp add: np_unique_def strict_sorted_iff)

lemma set_fold_union1d:
  "set (fold (\<lambda>elem L. np_union1d L (label elem)) es L0) = set L0 \<union> (\<Union>e\<in>set es. set (label e))"
  by (induction es arbitrary: L0) (auto simp: set_np_union1d)

lemma strict_fold_union1d:
  "sorted_wrt (<) L0 \<Longrightarrow> sorted_wrt (<) (fold (\<lambda>elem L. np_union1d L (label elem)) es L0)"
  by (induction es arbitrary: L0) (simp_all add: np_union1d_def strict_np_unique)

lemma get_box_log: "get_box d = (lg, Inr x) \<Longrightarrow> lg = []"
  by (auto simp: get_box_def split: option.splits prod.splits)

lemma box_label0_length:
  "box_label0 n box = (lg2, Some ls) \<Longrightarrow> (length ls = 2 * n) = (lg2 = [])"
  by (auto simp: box_label0_def init_box_label_def split: option.splits label_value.splits if_splits)

text \<open>
  C8, as the code has it. \<^verbatim>\<open>list_of_labels\<close> returns, as a set, the union of every
  entry of \<^verbatim>\<open>box_label\<close> (the values -1 and -2 as any other) and of the labels of every
  element of \<^verbatim>\<open>list_elem\<close>. In a geometry that the constructor has built,
  \<^verbatim>\<open>box_label\<close> has at least \<open>2 * dim\<close> entries, and it has exactly the \<open>2 * dim\<close> face
  labels when, and only when, the construction logged no error: a label list that is too
  long is kept whole, and its entries after the face labels are returned as well.
\<close>

theorem list_of_labels_union:
  "set (list_of_labels g) = set (box_label g) \<union> (\<Union>e\<in>set (list_elem g). set (label e))
 \<and> (Geometry_init Interface d = (lg, Inr g) \<longrightarrow>
       2 * dim g \<le> length (box_label g)
     \<and> (length (box_label g) = 2 * dim g) = (lg = []))"
proof -
  have 1: "set (list_of_labels g)
      = set (box_label g) \<union> (\<Union>e\<in>set (list_elem g). set (label e))"
    by (simp add: list_of_labels_def set_fold_union1d set_np_unique)
  have 2: "2 * dim g \<le> length (box_label g) \<and> (length (box_label g) = 2 * dim g) = (lg = [])"
    if c: "Geometry_init Interface d = (lg, Inr g)"
  proof -
    from Geometry_init_Inr [OF c] obtain box lg1 gb lg2 ls where
      b: "get_box d = (lg1, Inr (dim g, gb))" "box_label0 (dim g) box = (lg2, Some ls)"
        "lg = lg1 @ lg2"
        "override_interfaces (dim g) (Shift (interface g)) ls = Inr (box_label g)"
      by blast
    from Geometry_init_label_length [OF c] b(2,4) obtain ls0 where
      "2 * dim g \<le> length ls0" "override_interfaces (dim g) (Shift (interface g)) ls0 = Inr (box_label g)"
      by blast
    then have a: "2 * dim g \<le> length (box_label g)"
      using override_loop_length [of "Shift (interface g)" "[0..<dim g]" ls0 "box_label g"]
      by (simp add: override_interfaces_def)
    have len: "length (box_label g) = length ls"
      using b(4) override_loop_length [of "Shift (interface g)" "[0..<dim g]" ls "box_label g"]
      by (simp add: override_interfaces_def)
    have "lg1 = []" using b(1) by (rule get_box_log)
    with b(3) box_label0_length [OF b(2)] len a show ?thesis by simp
  qed
  from 1 2 show ?thesis by blast
qed

theorem list_of_labels_union_witness:
  "set (list_of_labels geom0) = {- 2, 0, 1, 3}
 \<and> length (box_label geom0) = 2 * dim geom0
 \<and> Geometry_init first_of_two dico_cavity = ([], Inr geom0)"
  using list_of_labels_union [of geom0 first_of_two dico_cavity "[]"] Geometry_init_cavity
  by (auto simp: geom0_def circle_def)

text \<open>
  C8 as stated fails. The geometry built from the segment with three labels has
  dimension 1 and no element; its two face labels are 1 and 2, and \<^verbatim>\<open>list_of_labels\<close>
  returns 1, 2 and 3.
\<close>

theorem list_of_labels_beyond_faces:
  "(case Geometry_init one_process dico_long_label of
      (lg, Inr g) \<Rightarrow> dim g = 1 \<and> list_elem g = []
         \<and> take (2 * dim g) (box_label g) = [1, 2] \<and> list_of_labels g = [1, 2, 3]
    | (lg, Inl e) \<Rightarrow> False)"
  by (simp add: eval_defs one_process_def dico_long_label_def list_of_labels_def np_unique_def)

text \<open>
  C10. The array returned by \<^verbatim>\<open>list_of_labels\<close> has no duplicate and is in strictly
  ascending order, whatever the order of the face labels and of the elements.
\<close>

theorem list_of_labels_strictly_sorted:
  "distinct (list_of_labels g) \<and> sorted_wrt (<) (list_of_labels g)"
  using strict_fold_union1d [OF strict_np_unique, of "list_elem g" "box_label g"]
  by (simp add: list_of_labels_def strict_sorted_iff)

theorem list_of_labels_strictly_sorted_witness:
  "list_of_labels (add_elem geom0 triangle) = [- 2, 0, 1, 3, 4]
   \<and> distinct (list_of_labels (add_elem geom0 triangle))
   \<and> sorted_wrt (<) (list_of_labels (add_elem geom0 triangle))"
  using list_of_labels_strictly_sorted [of "add_elem geom0 triangle"]
  by (simp add: list_of_labels_def geom0_def add_elem_def circle_def triangle_def
      np_union1d_def np_unique_def)

subsection \<open>Adding an element\<close>

lemma call_prefix: "prefix (list_elem g) (list_elem (call c g))"
  by (cases c) (simp_all add: add_elem_def)

lemma fold_call_prefix: "prefix (list_elem g) (list_elem (fold call cs g))"
proof (induction cs arbitrary: g)
  case Nil
  show ?case by simp
next
  case (Cons c cs)
  have "prefix (list_elem g) (list_elem (call c g))"
    by (rule call_prefix)
  also have "prefix (list_elem (call c g)) (list_elem (fold call cs (call c g)))"
    by (rule Cons.IH)
  finally show ?case by simp
qed

text \<open>
  C9. \<^verbatim>\<open>add_elem(e)\<close> puts \<open>e\<close> at the end of \<^verbatim>\<open>list_elem\<close> and changes no other
  attribute (the dimension, the global and the local bounds, the labels, the topology);
  the elements stored before keep their places. Whatever methods are called afterwards,
  the list at the start is a prefix of the list at the end: no entry is removed.
\<close>

theorem add_elem_appends:
  "list_elem (add_elem g elem) = list_elem g @ [elem]
   \<and> dim (add_elem g elem) = dim g
   \<and> globalbounds (add_elem g elem) = globalbounds g
   \<and> bounds (add_elem g elem) = bounds g
   \<and> box_label (add_elem g elem) = box_label g
   \<and> interface (add_elem g elem) = interface g
   \<and> prefix (list_elem g) (list_elem (fold call cs g))"
  by (simp add: add_elem_def fold_call_prefix)

theorem add_elem_appends_witness:
  "list_elem (add_elem geom0 triangle) = [circle, triangle]
   \<and> box_label (add_elem geom0 triangle) = [1, - 2, 1, 1]
   \<and> prefix [circle]
        (list_elem (fold call [Call_str, Call_add_elem triangle, Call_list_of_labels] geom0))"
  using add_elem_appends [of geom0 triangle "[Call_str, Call_add_elem triangle, Call_list_of_labels]"]
  by (simp add: geom0_def)

end
